theory Spec2Isabelle
  imports Main "HOL-Library.Word" "HOL-Library.AList"
begin

section \<open>The packed-function calling convention of \<open>include/tvm/runtime/packed_func.h\<close>\<close>

text \<open>
  A shallow embedding of the value-passing layer of the TVM runtime: the type-code
  registry and the textual form of type descriptors, the borrowed argument view
  (\<open>TVMArgValue\<close>), the argument list (\<open>TVMArgs\<close>) and the owning return slot
  (\<open>TVMRetValue\<close>) with its heap boxes.

  Every \<open>CHECK\<close>, \<open>CHECK_EQ\<close>, \<open>CHECK_LE\<close>, \<open>CHECK_LT\<close> and \<open>LOG(FATAL)\<close> of the
  source is a branch returning \<open>Inl\<close> of a fatal error. Behaviour that C++ leaves
  undefined (a read outside an array, a \<open>delete\<close> of a pointer that is not live, a
  read of a union member that is not the one stored) is a branch of its own,
  \<open>Inl (Undefined _)\<close>, so that it is never confused with a check of the program.
\<close>

subsection \<open>Type codes and type descriptors\<close>

text \<open>
  Modelled from the spec: the enumeration \<open>TVMTypeCode\<close> is declared in
  \<open>c_runtime_api.h\<close>, which is not among the sources. The spec (section 3) gives the
  closed set of tags; the constructor names are the ones \<open>packed_func.h\<close> uses.
\<close>

datatype TVMTypeCode =
    kInt | kUInt | kFloat | kHandle | kNull | kArrayHandle | kTVMType
  | kNodeHandle | kModuleHandle | kFuncHandle | kStr | kBytes

text \<open>
  Modelled from the spec: \<open>TVMType\<close> is declared in \<open>c_runtime_api.h\<close>; the spec gives
  \<open>{code, bits: 8-bit width, lanes: 16-bit count}\<close>.
\<close>

record TVMType =
  code :: TVMTypeCode
  bits :: "8 word"
  lanes :: "16 word"

datatype undefined_behaviour =
    OutOfBoundsRead int
  | InactiveUnionMember
  | InvalidPointer nat

datatype error =
    TypeCodeMismatch TVMTypeCode TVMTypeCode  \<comment> \<open>\<open>TVM_CHECK_TYPE_CODE\<close>: expected, actual\<close>
  | UnknownTypeCode TVMTypeCode               \<comment> \<open>\<open>LOG(FATAL) << "unknown type_code="\<close>\<close>
  | UnknownType string                        \<comment> \<open>\<open>LOG(FATAL) << "unknown type " << s\<close>\<close>
  | IntTooLarge "64 word"                     \<comment> \<open>\<open>CHECK_LE(v_int64, numeric_limits<int>::max())\<close>\<close>
  | NotEnoughArguments int int                \<comment> \<open>\<open>CHECK_LT(i, num_args)\<close>: passed, requested\<close>
  | CannotMoveStr                             \<comment> \<open>\<open>CHECK(type_code_ != kStr)\<close>\<close>
  | ValueNotPOD TVMTypeCode                   \<comment> \<open>the \<open>CHECK\<close> of \<open>TVMRetValue::value()\<close>\<close>
  | Undefined undefined_behaviour

fun is_fatal :: "error \<Rightarrow> bool" where
  "is_fatal (Undefined _) = False"
| "is_fatal _ = True"

text \<open>\<open>TypeCode2Str\<close>: the switch has no case for \<open>kUInt\<close>, which reaches \<open>default\<close>.\<close>

fun TypeCode2Str :: "TVMTypeCode \<Rightarrow> error + string" where
  "TypeCode2Str kInt = Inr ''int''"
| "TypeCode2Str kFloat = Inr ''float''"
| "TypeCode2Str kStr = Inr ''str''"
| "TypeCode2Str kBytes = Inr ''bytes''"
| "TypeCode2Str kHandle = Inr ''handle''"
| "TypeCode2Str kNull = Inr ''NULL''"
| "TypeCode2Str kNodeHandle = Inr ''NodeHandle''"
| "TypeCode2Str kArrayHandle = Inr ''ArrayHandle''"
| "TypeCode2Str kTVMType = Inr ''TVMType''"
| "TypeCode2Str kFuncHandle = Inr ''FunctionHandle''"
| "TypeCode2Str kModuleHandle = Inr ''ModuleHandle''"
| "TypeCode2Str c = Inl (UnknownTypeCode c)"

text \<open>\<open>os << n\<close> for a non-negative \<open>int\<close>: decimal digits, no leading zero.\<close>

definition digit_chars :: string where
  "digit_chars = ''0123456789''"

fun string_of_nat :: "nat \<Rightarrow> string" where
  "string_of_nat n =
     (if n < 10 then [digit_chars ! n]
      else string_of_nat (n div 10) @ [digit_chars ! (n mod 10)])"

declare string_of_nat.simps [simp del]

text \<open>
  \<open>operator<<(std::ostream&, TVMType)\<close> and \<open>TVMType2String\<close>: the name of the code;
  nothing more for \<open>kHandle\<close>; otherwise the bits, and \<open>x<lanes>\<close> when lanes is not 1.
\<close>

definition TVMType2String :: "TVMType \<Rightarrow> error + string" where
  "TVMType2String t =
     (case TypeCode2Str (code t) of
        Inl e \<Rightarrow> Inl e
      | Inr name \<Rightarrow>
          if code t = kHandle then Inr name
          else Inr (name @ string_of_nat (unat (bits t))
                    @ (if lanes t \<noteq> 1 then CHR ''x'' # string_of_nat (unat (lanes t)) else [])))"

subsection \<open>Parsing a type descriptor\<close>

text \<open>
  \<open>sscanf(scan, "%ux%u", &bits, &lanes)\<close> belongs to the C library. It is modelled
  after the C standard: a \<open>%u\<close> directive skips white space, accepts an optional sign
  and then needs at least one decimal digit; the literal \<open>x\<close> must come next; the scan
  stops at the first directive that does not match, and an output that was not
  reached keeps the value it had. The number is accumulated in 32 bits (the standard
  leaves a value that does not fit \<open>unsigned\<close> undefined).
\<close>

definition isspace :: "char \<Rightarrow> bool" where
  "isspace c = (c \<in> set [CHR '' '', CHR 0x09, CHR 0x0A, CHR 0x0B, CHR 0x0C, CHR 0x0D])"

definition digit_val :: "char \<Rightarrow> nat option" where
  "digit_val c = map_of (zip digit_chars [0, 1, 2, 3, 4, 5, 6, 7, 8, 9]) c"

fun scan_digits :: "32 word \<Rightarrow> string \<Rightarrow> 32 word \<times> string" where
  "scan_digits acc [] = (acc, [])"
| "scan_digits acc (c # cs) =
     (case digit_val c of
        None \<Rightarrow> (acc, c # cs)
      | Some d \<Rightarrow> scan_digits (acc * 10 + of_nat d) cs)"

definition scan_sign :: "string \<Rightarrow> bool \<times> string" where
  "scan_sign s =
     (case s of
        [] \<Rightarrow> (False, s)
      | c # cs \<Rightarrow> if c = CHR ''-'' then (True, cs)
                  else if c = CHR ''+'' then (False, cs)
                  else (False, s))"

definition scan_unsigned :: "string \<Rightarrow> (32 word \<times> string) option" where
  "scan_unsigned s =
     (let (neg, s1) = scan_sign (dropWhile isspace s) in
      case s1 of
        [] \<Rightarrow> None
      | c # cs \<Rightarrow>
          (case digit_val c of
             None \<Rightarrow> None
           | Some d \<Rightarrow>
               let (v, rest) = scan_digits 0 s1 in
               Some (if neg then - v else v, rest)))"

definition sscanf_u_x_u :: "string \<Rightarrow> 32 word \<Rightarrow> 32 word \<Rightarrow> 32 word \<times> 32 word" where
  "sscanf_u_x_u scan bits0 lanes0 =
     (case scan_unsigned scan of
        None \<Rightarrow> (bits0, lanes0)
      | Some (b, rest) \<Rightarrow>
          (case rest of
             [] \<Rightarrow> (b, lanes0)
           | c # cs \<Rightarrow>
               if c = CHR ''x'' then
                 (case scan_unsigned cs of
                    None \<Rightarrow> (b, lanes0)
                  | Some (l, _) \<Rightarrow> (b, l))
               else (b, lanes0)))"

text \<open>\<open>s.c_str()\<close>: the characters up to the first NUL.\<close>

definition c_str :: "string \<Rightarrow> string" where
  "c_str s = takeWhile (\<lambda>c. c \<noteq> CHR 0x00) s"

text \<open>
  The tail of \<open>String2TVMType\<close> after the prefix has fixed the code and the default
  bits: scan, then narrow with \<open>static_cast<uint8_t>\<close> and \<open>static_cast<uint16_t>\<close>.
\<close>

definition scan_type :: "TVMTypeCode \<Rightarrow> 8 word \<Rightarrow> string \<Rightarrow> TVMType" where
  "scan_type c bits0 scan =
     (let (b, l) = sscanf_u_x_u scan (ucast bits0) (ucast (1 :: 16 word)) in
      \<lparr> code = c, bits = ucast b, lanes = ucast l \<rparr>)"

definition String2TVMType :: "string \<Rightarrow> error + TVMType" where
  "String2TVMType s =
     (if take 3 s = ''int'' then Inr (scan_type kInt 32 (drop 3 (c_str s)))
      else if take 4 s = ''uint'' then Inr (scan_type kUInt 32 (drop 4 (c_str s)))
      else if take 5 s = ''float'' then Inr (scan_type kFloat 32 (drop 5 (c_str s)))
      else if take 6 s = ''handle'' then Inr (scan_type kHandle 64 (drop 6 (c_str s)))
      else Inl (UnknownType s))"

text \<open>Formatting a descriptor and parsing the text back.\<close>

definition Parse_Format :: "TVMType \<Rightarrow> error + TVMType" where
  "Parse_Format d = (case TVMType2String d of Inl e \<Rightarrow> Inl e | Inr s \<Rightarrow> String2TVMType s)"

subsection \<open>The value union and the objects it points to\<close>

text \<open>
  Addresses are natural numbers and \<open>nullptr\<close> is 0. The memory holds the objects that
  a handle can point to: the boxes a return slot allocates with \<open>new\<close>, and the
  caller's objects that an argument view borrows.
\<close>

type_synonym addr = nat

definition nullptr :: addr where
  "nullptr = 0"

text \<open>
  \<open>PackedFunc\<close> wraps a \<open>std::function\<close>; the model keeps the identity of the stored
  body, \<open>None\<close> for the empty function of the default constructor.
\<close>

datatype PackedFunc = PackedFunc (body: "nat option")

text \<open>
  Modelled from the spec: \<open>Module\<close> is declared in \<open>module.h\<close> and \<open>Node\<close> in the node
  system, neither among the sources; the spec treats both as opaque values that are
  only copied and boxed. \<open>TVMByteArray\<close> (\<open>c_runtime_api.h\<close>) is the buffer
  \<open>data[0..size)\<close>.
\<close>

datatype Module = Module nat

datatype NodePtr = NodePtr nat

datatype Object =
    StringObj string
  | PackedFuncObj PackedFunc
  | ModuleObj Module
  | NodeObj NodePtr
  | ByteArrayObj string

datatype object_class = StringC | PackedFuncC | ModuleC | NodeC | ByteArrayC

fun class_of :: "Object \<Rightarrow> object_class" where
  "class_of (StringObj _) = StringC"
| "class_of (PackedFuncObj _) = PackedFuncC"
| "class_of (ModuleObj _) = ModuleC"
| "class_of (NodeObj _) = NodeC"
| "class_of (ByteArrayObj _) = ByteArrayC"

type_synonym memory = "(addr \<times> Object) list"

definition live :: "memory \<Rightarrow> addr set" where
  "live m = fst ` set m"

text \<open>\<open>new T(v)\<close>: an address that is not null and not live, holding the object.\<close>

definition new_addr :: "memory \<Rightarrow> addr" where
  "new_addr m = Suc (fold max (map fst m) 0)"

definition new_object :: "Object \<Rightarrow> memory \<Rightarrow> addr \<times> memory" where
  "new_object obj m = (new_addr m, (new_addr m, obj) # m)"

text \<open>
  \<open>delete static_cast<T*>(p)\<close>: nothing for \<open>nullptr\<close>; the object goes when \<open>p\<close> is
  live and holds a \<open>T\<close>; anything else (a second \<open>delete\<close> of the same box, for one)
  is undefined.
\<close>

definition delete_object :: "object_class \<Rightarrow> addr \<Rightarrow> memory \<Rightarrow> error + memory" where
  "delete_object c p m =
     (if p = nullptr then Inr m
      else case map_of m p of
             None \<Rightarrow> Inl (Undefined (InvalidPointer p))
           | Some obj \<Rightarrow>
               if class_of obj = c then Inr (AList.delete p m)
               else Inl (Undefined (InvalidPointer p)))"

text \<open>\<open>*static_cast<T*>(p)\<close> read, one loader for each class, and \<open>*static_cast<T*>(p) = v\<close>.\<close>

definition load_string :: "addr \<Rightarrow> memory \<Rightarrow> error + string" where
  "load_string p m =
     (case map_of m p of
        Some (StringObj s) \<Rightarrow> Inr s
      | _ \<Rightarrow> Inl (Undefined (InvalidPointer p)))"

definition load_PackedFunc :: "addr \<Rightarrow> memory \<Rightarrow> error + PackedFunc" where
  "load_PackedFunc p m =
     (case map_of m p of
        Some (PackedFuncObj f) \<Rightarrow> Inr f
      | _ \<Rightarrow> Inl (Undefined (InvalidPointer p)))"

definition load_Module :: "addr \<Rightarrow> memory \<Rightarrow> error + Module" where
  "load_Module p m =
     (case map_of m p of
        Some (ModuleObj x) \<Rightarrow> Inr x
      | _ \<Rightarrow> Inl (Undefined (InvalidPointer p)))"

definition load_Node :: "addr \<Rightarrow> memory \<Rightarrow> error + NodePtr" where
  "load_Node p m =
     (case map_of m p of
        Some (NodeObj n) \<Rightarrow> Inr n
      | _ \<Rightarrow> Inl (Undefined (InvalidPointer p)))"

definition load_ByteArray :: "addr \<Rightarrow> memory \<Rightarrow> error + string" where
  "load_ByteArray p m =
     (case map_of m p of
        Some (ByteArrayObj d) \<Rightarrow> Inr d
      | _ \<Rightarrow> Inl (Undefined (InvalidPointer p)))"

definition store_object :: "addr \<Rightarrow> Object \<Rightarrow> memory \<Rightarrow> error + memory" where
  "store_object p v m =
     (case map_of m p of
        None \<Rightarrow> Inl (Undefined (InvalidPointer p))
      | Some obj \<Rightarrow>
          if class_of obj = class_of v then Inr (AList.update p v m)
          else Inl (Undefined (InvalidPointer p)))"

text \<open>
  Modelled from the spec: the union \<open>TVMValue\<close> is declared in \<open>c_runtime_api.h\<close>
  (spec section 6: int64, float64, opaque pointer, type descriptor; the source also
  uses the member \<open>v_str\<close>). A value of the datatype is the member stored last;
  \<open>Uninit\<close> is the union a default constructor leaves unset. A \<open>double\<close> is kept as
  its 64 bits, and a \<open>const char*\<close> as the characters it points to.
\<close>

datatype TVMValue =
    Uninit
  | V_int64 "64 word"
  | V_float64 "64 word"
  | V_handle addr
  | V_str string
  | V_type TVMType

fun v_int64 :: "TVMValue \<Rightarrow> error + 64 word" where
  "v_int64 (V_int64 w) = Inr w"
| "v_int64 _ = Inl (Undefined InactiveUnionMember)"

fun v_float64 :: "TVMValue \<Rightarrow> error + 64 word" where
  "v_float64 (V_float64 w) = Inr w"
| "v_float64 _ = Inl (Undefined InactiveUnionMember)"

fun v_handle :: "TVMValue \<Rightarrow> error + addr" where
  "v_handle (V_handle p) = Inr p"
| "v_handle _ = Inl (Undefined InactiveUnionMember)"

fun v_str :: "TVMValue \<Rightarrow> error + string" where
  "v_str (V_str s) = Inr s"
| "v_str _ = Inl (Undefined InactiveUnionMember)"

fun v_type :: "TVMValue \<Rightarrow> error + TVMType" where
  "v_type (V_type t) = Inr t"
| "v_type _ = Inl (Undefined InactiveUnionMember)"

text \<open>
  \<open>TVMPODValue_\<close>, the base of \<open>TVMArgValue\<close> and \<open>TVMRetValue\<close>: the fields \<open>value_\<close>
  and \<open>type_code_\<close>.
\<close>

record TVMPODValue =
  value' :: TVMValue
  type_code' :: TVMTypeCode

type_synonym TVMArgValue = TVMPODValue
type_synonym TVMRetValue = TVMPODValue

text \<open>
  \<open>TVM_CHECK_TYPE_CODE(CODE, T)\<close>: \<open>CHECK_EQ(CODE, T)\<close>, whose message calls
  \<open>TypeCode2Str\<close> on both codes when the check fails.
\<close>

definition TVM_CHECK_TYPE_CODE :: "TVMTypeCode \<Rightarrow> TVMTypeCode \<Rightarrow> error option" where
  "TVM_CHECK_TYPE_CODE c t =
     (if c = t then None
      else case TypeCode2Str t of
             Inl e \<Rightarrow> Some e
           | Inr _ \<Rightarrow>
               (case TypeCode2Str c of
                  Inl e \<Rightarrow> Some e
                | Inr _ \<Rightarrow> Some (TypeCodeMismatch t c)))"

subsection \<open>Conversions of \<open>TVMPODValue_\<close>\<close>

definition operator_double :: "TVMPODValue \<Rightarrow> error + 64 word" where
  "operator_double pv =
     (case TVM_CHECK_TYPE_CODE (type_code' pv) kFloat of
        Some e \<Rightarrow> Inl e
      | None \<Rightarrow> v_float64 (value' pv))"

definition operator_int64_t :: "TVMPODValue \<Rightarrow> error + 64 word" where
  "operator_int64_t pv =
     (case TVM_CHECK_TYPE_CODE (type_code' pv) kInt of
        Some e \<Rightarrow> Inl e
      | None \<Rightarrow> v_int64 (value' pv))"

text \<open>\<open>operator uint64_t\<close>: the signed 64-bit member converted to unsigned, the same bits.\<close>

definition operator_uint64_t :: "TVMPODValue \<Rightarrow> error + 64 word" where
  "operator_uint64_t pv =
     (case TVM_CHECK_TYPE_CODE (type_code' pv) kInt of
        Some e \<Rightarrow> Inl e
      | None \<Rightarrow> v_int64 (value' pv))"

text \<open>
  \<open>operator int\<close>, with a 32-bit \<open>int\<close>: \<open>CHECK_LE\<close> against
  \<open>std::numeric_limits<int>::max()\<close> compares as signed 64-bit values, and
  \<open>static_cast<int>\<close> keeps the low 32 bits.
\<close>

definition INT_MAX :: int where
  "INT_MAX = 2147483647"

definition INT_MIN :: int where
  "INT_MIN = - 2147483648"

definition operator_int :: "TVMPODValue \<Rightarrow> error + 32 word" where
  "operator_int pv =
     (case TVM_CHECK_TYPE_CODE (type_code' pv) kInt of
        Some e \<Rightarrow> Inl e
      | None \<Rightarrow>
          (case v_int64 (value' pv) of
             Inl e \<Rightarrow> Inl e
           | Inr v \<Rightarrow>
               if sint v \<le> INT_MAX then Inr (ucast v) else Inl (IntTooLarge v)))"

definition operator_bool :: "TVMPODValue \<Rightarrow> error + bool" where
  "operator_bool pv =
     (case TVM_CHECK_TYPE_CODE (type_code' pv) kInt of
        Some e \<Rightarrow> Inl e
      | None \<Rightarrow>
          (case v_int64 (value' pv) of
             Inl e \<Rightarrow> Inl e
           | Inr v \<Rightarrow> Inr (v \<noteq> 0)))"

definition operator_void_ptr :: "TVMPODValue \<Rightarrow> error + addr" where
  "operator_void_ptr pv =
     (if type_code' pv = kNull then Inr nullptr
      else if type_code' pv = kArrayHandle then v_handle (value' pv)
      else case TVM_CHECK_TYPE_CODE (type_code' pv) kHandle of
             Some e \<Rightarrow> Inl e
           | None \<Rightarrow> v_handle (value' pv))"

definition operator_TVMArray_ptr :: "TVMPODValue \<Rightarrow> error + addr" where
  "operator_TVMArray_ptr pv =
     (if type_code' pv = kNull then Inr nullptr
      else case TVM_CHECK_TYPE_CODE (type_code' pv) kArrayHandle of
             Some e \<Rightarrow> Inl e
           | None \<Rightarrow> v_handle (value' pv))"

text \<open>\<open>ptr<T>()\<close>: \<open>static_cast<T*>(value_.v_handle)\<close>.\<close>

definition ptr :: "TVMPODValue \<Rightarrow> error + addr" where
  "ptr pv = v_handle (value' pv)"

subsection \<open>Conversions of \<open>TVMArgValue\<close> and \<open>TVMRetValue\<close> to the complex types\<close>

definition TVMArgValue :: "TVMValue \<Rightarrow> TVMTypeCode \<Rightarrow> TVMArgValue" where
  "TVMArgValue v c = \<lparr> value' = v, type_code' = c \<rparr>"

text \<open>
  \<open>TVMArgValue::operator std::string\<close>. Its first branch calls \<open>operator TVMType()\<close>
  on a value whose code is \<open>kTVMType\<close>; there that operator skips its \<open>kStr\<close> branch,
  passes its check and returns \<open>value_.v_type\<close>. \<open>std::string(const char*)\<close> stops at
  the first NUL, \<open>std::string(arr->data, arr->size)\<close> takes the whole buffer.
\<close>

definition ArgValue_operator_string :: "TVMArgValue \<Rightarrow> memory \<Rightarrow> error + string" where
  "ArgValue_operator_string a m =
     (if type_code' a = kTVMType then
        (case v_type (value' a) of Inl e \<Rightarrow> Inl e | Inr t \<Rightarrow> TVMType2String t)
      else if type_code' a = kBytes then
        (case ptr a of Inl e \<Rightarrow> Inl e | Inr p \<Rightarrow> load_ByteArray p m)
      else case TVM_CHECK_TYPE_CODE (type_code' a) kStr of
             Some e \<Rightarrow> Inl e
           | None \<Rightarrow> (case v_str (value' a) of Inl e \<Rightarrow> Inl e | Inr s \<Rightarrow> Inr (c_str s)))"

definition ArgValue_operator_TVMType :: "TVMArgValue \<Rightarrow> memory \<Rightarrow> error + TVMType" where
  "ArgValue_operator_TVMType a m =
     (if type_code' a = kStr then
        (case ArgValue_operator_string a m of Inl e \<Rightarrow> Inl e | Inr s \<Rightarrow> String2TVMType s)
      else case TVM_CHECK_TYPE_CODE (type_code' a) kTVMType of
             Some e \<Rightarrow> Inl e
           | None \<Rightarrow> v_type (value' a))"

text \<open>\<open>TVMRetValue::operator std::string\<close> reads the boxed string, \<open>*ptr<std::string>()\<close>.\<close>

definition RetValue_operator_string :: "TVMRetValue \<Rightarrow> memory \<Rightarrow> error + string" where
  "RetValue_operator_string r m =
     (if type_code' r = kTVMType then
        (case v_type (value' r) of Inl e \<Rightarrow> Inl e | Inr t \<Rightarrow> TVMType2String t)
      else case TVM_CHECK_TYPE_CODE (type_code' r) kStr of
             Some e \<Rightarrow> Inl e
           | None \<Rightarrow> (case ptr r of Inl e \<Rightarrow> Inl e | Inr p \<Rightarrow> load_string p m))"

definition RetValue_operator_TVMType :: "TVMRetValue \<Rightarrow> memory \<Rightarrow> error + TVMType" where
  "RetValue_operator_TVMType r m =
     (if type_code' r = kStr then
        (case RetValue_operator_string r m of Inl e \<Rightarrow> Inl e | Inr s \<Rightarrow> String2TVMType s)
      else case TVM_CHECK_TYPE_CODE (type_code' r) kTVMType of
             Some e \<Rightarrow> Inl e
           | None \<Rightarrow> v_type (value' r))"

text \<open>
  \<open>operator PackedFunc\<close> and \<open>operator Module\<close> have the same body in \<open>TVMArgValue\<close>
  and in \<open>TVMRetValue\<close>: the check of the code, then a copy of \<open>*ptr<T>()\<close>.
\<close>

definition operator_PackedFunc :: "TVMPODValue \<Rightarrow> memory \<Rightarrow> error + PackedFunc" where
  "operator_PackedFunc pv m =
     (case TVM_CHECK_TYPE_CODE (type_code' pv) kFuncHandle of
        Some e \<Rightarrow> Inl e
      | None \<Rightarrow> (case ptr pv of Inl e \<Rightarrow> Inl e | Inr p \<Rightarrow> load_PackedFunc p m))"

definition operator_Module :: "TVMPODValue \<Rightarrow> memory \<Rightarrow> error + Module" where
  "operator_Module pv m =
     (case TVM_CHECK_TYPE_CODE (type_code' pv) kModuleHandle of
        Some e \<Rightarrow> Inl e
      | None \<Rightarrow> (case ptr pv of Inl e \<Rightarrow> Inl e | Inr p \<Rightarrow> load_Module p m))"

subsection \<open>The argument list\<close>

text \<open>
  \<open>TVMArgs\<close>: the two arrays the pointers \<open>values\<close> and \<open>type_codes\<close> point to, and
  \<open>num_args\<close>, an \<open>int\<close> the constructor stores unchecked. \<open>operator[]\<close> checks
  \<open>i < num_args\<close> only; a read outside the arrays is undefined.
\<close>

record TVMArgs =
  "values" :: "TVMValue list"
  type_codes :: "TVMTypeCode list"
  num_args :: int

definition TVMArgs_index :: "TVMArgs \<Rightarrow> int \<Rightarrow> error + TVMArgValue" where
  "TVMArgs_index a i =
     (if i < num_args a then
        (if 0 \<le> i \<and> nat i < length (values a) \<and> nat i < length (type_codes a)
         then Inr (TVMArgValue (values a ! nat i) (type_codes a ! nat i))
         else Inl (Undefined (OutOfBoundsRead i)))
      else Inl (NotEnoughArguments (num_args a) i))"

definition TVMArgs_size :: "TVMArgs \<Rightarrow> int" where
  "TVMArgs_size a = num_args a"

subsection \<open>The owning return slot\<close>

text \<open>The default constructor: \<open>type_code_(kNull)\<close>, the union left unset.\<close>

definition TVMRetValue_default :: TVMRetValue where
  "TVMRetValue_default = \<lparr> value' = Uninit, type_code' = kNull \<rparr>"

text \<open>The \<open>switch\<close> of \<open>Clear\<close>: the \<open>delete\<close> that matches the code, none for the other codes.\<close>

definition delete_ptr :: "object_class \<Rightarrow> TVMRetValue \<Rightarrow> memory \<Rightarrow> error + memory" where
  "delete_ptr c r m = (case ptr r of Inl e \<Rightarrow> Inl e | Inr p \<Rightarrow> delete_object c p m)"

definition Clear_switch :: "TVMRetValue \<Rightarrow> memory \<Rightarrow> error + memory" where
  "Clear_switch r m =
     (case type_code' r of
        kStr \<Rightarrow> delete_ptr StringC r m
      | kFuncHandle \<Rightarrow> delete_ptr PackedFuncC r m
      | kModuleHandle \<Rightarrow> delete_ptr ModuleC r m
      | kNodeHandle \<Rightarrow> delete_ptr NodeC r m
      | _ \<Rightarrow> Inr m)"

definition Clear :: "TVMRetValue \<Rightarrow> memory \<Rightarrow> error + TVMRetValue \<times> memory" where
  "Clear r m =
     (if type_code' r = kNull then Inr (r, m)
      else case Clear_switch r m of
             Inl e \<Rightarrow> Inl e
           | Inr m' \<Rightarrow> Inr (r\<lparr>type_code' := kNull\<rparr>, m'))"

text \<open>The destructor calls \<open>Clear\<close>; the slot is gone and the memory remains.\<close>

definition TVMRetValue_destroy :: "TVMRetValue \<Rightarrow> memory \<Rightarrow> error + memory" where
  "TVMRetValue_destroy r m = (case Clear r m of Inl e \<Rightarrow> Inl e | Inr (r', m') \<Rightarrow> Inr m')"

definition SwitchToPOD :: "TVMTypeCode \<Rightarrow> TVMRetValue \<Rightarrow> memory \<Rightarrow> error + TVMRetValue \<times> memory" where
  "SwitchToPOD c r m =
     (if type_code' r \<noteq> c then
        (case Clear r m of
           Inl e \<Rightarrow> Inl e
         | Inr (r', m') \<Rightarrow> Inr (r'\<lparr>type_code' := c\<rparr>, m'))
      else Inr (r, m))"

text \<open>\<open>SwitchToClass<T>(type_code, v)\<close>; the object \<open>v\<close> carries its class \<open>T\<close>.\<close>

definition SwitchToClass ::
  "TVMTypeCode \<Rightarrow> Object \<Rightarrow> TVMRetValue \<Rightarrow> memory \<Rightarrow> error + TVMRetValue \<times> memory" where
  "SwitchToClass c v r m =
     (if type_code' r \<noteq> c then
        (case Clear r m of
           Inl e \<Rightarrow> Inl e
         | Inr (r', m') \<Rightarrow>
             (let (p, m'') = new_object v m' in
              Inr (r'\<lparr>type_code' := c, value' := V_handle p\<rparr>, m'')))
      else
        (case ptr r of
           Inl e \<Rightarrow> Inl e
         | Inr p \<Rightarrow>
             (case store_object p v m of
                Inl e \<Rightarrow> Inl e
              | Inr m' \<Rightarrow> Inr (r, m'))))"

text \<open>
  The move constructor initialises the base from \<open>other.value_\<close> and
  \<open>other.type_code_\<close> and has an empty body: the pair returned is the new slot and
  \<open>other\<close> as the constructor leaves it.
\<close>

definition TVMRetValue_move_ctor :: "TVMRetValue \<Rightarrow> TVMRetValue \<times> TVMRetValue" where
  "TVMRetValue_move_ctor other =
     (\<lparr> value' = value' other, type_code' = type_code' other \<rparr>, other)"

text \<open>\<open>operator=(TVMRetValue&& other)\<close> on two distinct slots: the result is \<open>this\<close>, \<open>other\<close> and the memory.\<close>

definition operator_assign_move ::
  "TVMRetValue \<Rightarrow> TVMRetValue \<Rightarrow> memory \<Rightarrow> error + TVMRetValue \<times> TVMRetValue \<times> memory" where
  "operator_assign_move this other m =
     (case Clear this m of
        Inl e \<Rightarrow> Inl e
      | Inr (t, m') \<Rightarrow>
          Inr (t\<lparr>value' := value' other, type_code' := type_code' other\<rparr>,
               other\<lparr>type_code' := kNull\<rparr>, m'))"

text \<open>The assignments of a POD value: \<open>SwitchToPOD\<close>, then the store into the union.\<close>

definition assign_POD ::
  "TVMTypeCode \<Rightarrow> TVMValue \<Rightarrow> TVMRetValue \<Rightarrow> memory \<Rightarrow> error + TVMRetValue \<times> memory" where
  "assign_POD c v r m =
     (case SwitchToPOD c r m of
        Inl e \<Rightarrow> Inl e
      | Inr (r', m') \<Rightarrow> Inr (r'\<lparr>value' := v\<rparr>, m'))"

definition operator_assign_double :: "64 word \<Rightarrow> TVMRetValue \<Rightarrow> memory \<Rightarrow> error + TVMRetValue \<times> memory" where
  "operator_assign_double v = assign_POD kFloat (V_float64 v)"

definition operator_assign_nullptr :: "TVMRetValue \<Rightarrow> memory \<Rightarrow> error + TVMRetValue \<times> memory" where
  "operator_assign_nullptr = assign_POD kNull (V_handle nullptr)"

definition operator_assign_void_ptr :: "addr \<Rightarrow> TVMRetValue \<Rightarrow> memory \<Rightarrow> error + TVMRetValue \<times> memory" where
  "operator_assign_void_ptr p = assign_POD kHandle (V_handle p)"

definition operator_assign_int64_t :: "64 word \<Rightarrow> TVMRetValue \<Rightarrow> memory \<Rightarrow> error + TVMRetValue \<times> memory" where
  "operator_assign_int64_t v = assign_POD kInt (V_int64 v)"

definition operator_assign_int :: "32 word \<Rightarrow> TVMRetValue \<Rightarrow> memory \<Rightarrow> error + TVMRetValue \<times> memory" where
  "operator_assign_int v = assign_POD kInt (V_int64 (scast v))"

definition operator_assign_TVMType :: "TVMType \<Rightarrow> TVMRetValue \<Rightarrow> memory \<Rightarrow> error + TVMRetValue \<times> memory" where
  "operator_assign_TVMType t = assign_POD kTVMType (V_type t)"

definition operator_assign_bool :: "bool \<Rightarrow> TVMRetValue \<Rightarrow> memory \<Rightarrow> error + TVMRetValue \<times> memory" where
  "operator_assign_bool b = assign_POD kInt (V_int64 (if b then 1 else 0))"

text \<open>The assignments of a complex value.\<close>

definition operator_assign_string :: "string \<Rightarrow> TVMRetValue \<Rightarrow> memory \<Rightarrow> error + TVMRetValue \<times> memory" where
  "operator_assign_string s = SwitchToClass kStr (StringObj s)"

definition operator_assign_PackedFunc :: "PackedFunc \<Rightarrow> TVMRetValue \<Rightarrow> memory \<Rightarrow> error + TVMRetValue \<times> memory" where
  "operator_assign_PackedFunc f = SwitchToClass kFuncHandle (PackedFuncObj f)"

definition operator_assign_Module :: "Module \<Rightarrow> TVMRetValue \<Rightarrow> memory \<Rightarrow> error + TVMRetValue \<times> memory" where
  "operator_assign_Module x = SwitchToClass kModuleHandle (ModuleObj x)"

text \<open>
  \<open>Assign<T>(other)\<close>. The template is instantiated for \<open>TVMRetValue\<close> and for
  \<open>TVMArgValue\<close>, which differ in \<open>operator std::string\<close> only; that conversion is
  the parameter \<open>to_string\<close>. The argument of \<open>SwitchToClass<T>(code, other)\<close> is
  \<open>other\<close> converted to \<open>T\<close> before the call. The case \<open>kModuleHandle\<close> instantiates
  \<open>SwitchToClass<PackedFunc>\<close>, so \<open>other\<close> goes through \<open>operator PackedFunc\<close>.
\<close>

definition Assign ::
  "(TVMPODValue \<Rightarrow> memory \<Rightarrow> error + string) \<Rightarrow> TVMPODValue \<Rightarrow> TVMRetValue \<Rightarrow> memory
     \<Rightarrow> error + TVMRetValue \<times> memory" where
  "Assign to_string other this m =
     (case type_code' other of
        kStr \<Rightarrow>
          (case to_string other m of
             Inl e \<Rightarrow> Inl e
           | Inr s \<Rightarrow> SwitchToClass kStr (StringObj s) this m)
      | kBytes \<Rightarrow>
          (case to_string other m of
             Inl e \<Rightarrow> Inl e
           | Inr s \<Rightarrow> SwitchToClass kStr (StringObj s) this m)
      | kFuncHandle \<Rightarrow>
          (case operator_PackedFunc other m of
             Inl e \<Rightarrow> Inl e
           | Inr f \<Rightarrow> SwitchToClass kFuncHandle (PackedFuncObj f) this m)
      | kModuleHandle \<Rightarrow>
          (case operator_PackedFunc other m of
             Inl e \<Rightarrow> Inl e
           | Inr f \<Rightarrow> SwitchToClass kModuleHandle (PackedFuncObj f) this m)
      | kNodeHandle \<Rightarrow>
          (case ptr other of
             Inl e \<Rightarrow> Inl e
           | Inr p \<Rightarrow>
               (case load_Node p m of
                  Inl e \<Rightarrow> Inl e
                | Inr n \<Rightarrow> SwitchToClass kNodeHandle (NodeObj n) this m))
      | _ \<Rightarrow>
          (case SwitchToPOD (type_code' other) this m of
             Inl e \<Rightarrow> Inl e
           | Inr (t, m') \<Rightarrow> Inr (t\<lparr>value' := value' other\<rparr>, m')))"

text \<open>The copy constructor, \<open>operator=(const TVMRetValue&)\<close> and \<open>operator=(TVMArgValue)\<close>.\<close>

definition TVMRetValue_copy_ctor :: "TVMRetValue \<Rightarrow> memory \<Rightarrow> error + TVMRetValue \<times> memory" where
  "TVMRetValue_copy_ctor other m = Assign RetValue_operator_string other TVMRetValue_default m"

definition operator_assign_TVMRetValue ::
  "TVMRetValue \<Rightarrow> TVMRetValue \<Rightarrow> memory \<Rightarrow> error + TVMRetValue \<times> memory" where
  "operator_assign_TVMRetValue other this m = Assign RetValue_operator_string other this m"

definition operator_assign_TVMArgValue ::
  "TVMArgValue \<Rightarrow> TVMRetValue \<Rightarrow> memory \<Rightarrow> error + TVMRetValue \<times> memory" where
  "operator_assign_TVMArgValue other this m = Assign ArgValue_operator_string other this m"

text \<open>
  \<open>MoveToCHost(ret_value, ret_type_code)\<close>: the result is the slot afterwards and the
  two outputs \<open>*ret_value\<close> and \<open>*ret_type_code\<close>.
\<close>

definition MoveToCHost :: "TVMRetValue \<Rightarrow> error + TVMRetValue \<times> TVMValue \<times> TVMTypeCode" where
  "MoveToCHost r =
     (if type_code' r \<noteq> kStr
      then Inr (r\<lparr>type_code' := kNull\<rparr>, value' r, type_code' r)
      else Inl CannotMoveStr)"

definition RetValue_value :: "TVMRetValue \<Rightarrow> error + TVMValue" where
  "RetValue_value r =
     (if type_code' r \<noteq> kNodeHandle \<and> type_code' r \<noteq> kFuncHandle \<and>
         type_code' r \<noteq> kModuleHandle \<and> type_code' r \<noteq> kStr
      then Inr (value' r)
      else Inl (ValueNotPOD (type_code' r)))"

text \<open>
  A return slot owns its box when, for a complex code, its union holds a non-null
  handle to a live object of the class that \<open>Clear\<close> deletes for that code.
\<close>

definition box_class :: "TVMTypeCode \<Rightarrow> object_class option" where
  "box_class c =
     (case c of
        kStr \<Rightarrow> Some StringC
      | kFuncHandle \<Rightarrow> Some PackedFuncC
      | kModuleHandle \<Rightarrow> Some ModuleC
      | kNodeHandle \<Rightarrow> Some NodeC
      | _ \<Rightarrow> None)"

definition owns_box :: "TVMRetValue \<Rightarrow> memory \<Rightarrow> bool" where
  "owns_box r m =
     (case box_class (type_code' r) of
        None \<Rightarrow> True
      | Some c \<Rightarrow>
          (case value' r of
             V_handle p \<Rightarrow>
               p \<noteq> nullptr \<and>
               (case map_of m p of Some obj \<Rightarrow> class_of obj = c | None \<Rightarrow> False)
           | _ \<Rightarrow> False))"

section \<open>Properties\<close>

subsection \<open>The check of a type code\<close>

lemma check_same: "TVM_CHECK_TYPE_CODE c c = None"
  by (simp add: TVM_CHECK_TYPE_CODE_def)

lemma check_differs: "c \<noteq> t \<Longrightarrow> \<exists>e. TVM_CHECK_TYPE_CODE c t = Some e \<and> is_fatal e"
  by (cases t; cases c; simp add: TVM_CHECK_TYPE_CODE_def)

subsection \<open>POD conversions\<close>

lemma uint_sint_mod64: "uint (v :: 64 word) = sint v mod 2 ^ 64"
  using uint_sint [of v] by (simp add: take_bit_eq_mod)

lemma uint_of_negative64: "sint (v :: 64 word) < 0 \<Longrightarrow> 9223372036854775807 < uint v"
proof -
  assume neg: "sint v < 0"
  have lo: "- (2 ^ 63) \<le> sint v" using sint_ge [of v] by simp
  have "(sint v + 2 ^ 64) mod 2 ^ 64 = sint v + 2 ^ 64"
    using neg lo by (intro mod_pos_pos_trivial) simp_all
  moreover have "(sint v + 2 ^ 64) mod 2 ^ 64 = sint v mod 2 ^ 64"
    by (rule mod_add_self2)
  ultimately have "sint v mod 2 ^ 64 = sint v + 2 ^ 64"
    by simp
  then show ?thesis using lo by (simp add: uint_sint_mod64)
qed

text \<open>
  C10. \<open>operator uint64_t\<close> checks the code and nothing else: on a value of code
  \<open>kInt\<close> holding the 64-bit integer \<open>v\<close> it succeeds for every \<open>v\<close> and returns the
  same bits, that is \<open>v\<close> modulo \<open>2^64\<close> read as unsigned; a negative \<open>v\<close> comes out
  above \<open>INT64_MAX\<close>. With any other code it fails on the check.
\<close>

theorem operator_uint64_t_reinterprets:
  "(type_code' pv = kInt \<and> value' pv = V_int64 v \<longrightarrow>
      operator_uint64_t pv = Inr v \<and> uint v = sint v mod 2 ^ 64 \<and>
      (sint v < 0 \<longrightarrow> 9223372036854775807 < uint v)) \<and>
   (type_code' pv \<noteq> kInt \<longrightarrow> (\<exists>e. operator_uint64_t pv = Inl e \<and> is_fatal e))"
proof (intro conjI impI)
  assume a: "type_code' pv = kInt \<and> value' pv = V_int64 v"
  then show "operator_uint64_t pv = Inr v"
    by (simp add: operator_uint64_t_def check_same)
  show "uint v = sint v mod 2 ^ 64"
    by (rule uint_sint_mod64)
  show "9223372036854775807 < uint v" if "sint v < 0"
    using that by (rule uint_of_negative64)
next
  assume "type_code' pv \<noteq> kInt"
  then obtain e where "TVM_CHECK_TYPE_CODE (type_code' pv) kInt = Some e" "is_fatal e"
    using check_differs by blast
  then show "\<exists>e. operator_uint64_t pv = Inl e \<and> is_fatal e"
    by (simp add: operator_uint64_t_def)
qed

theorem operator_uint64_t_reinterprets_witness:
  "operator_uint64_t \<lparr> value' = V_int64 (- 1), type_code' = kInt \<rparr> = Inr (- 1) \<and>
   sint (- 1 :: 64 word) < 0 \<and> 9223372036854775807 < uint (- 1 :: 64 word) \<and>
   (\<exists>e. operator_uint64_t \<lparr> value' = V_int64 (- 1), type_code' = kFloat \<rparr> = Inl e \<and> is_fatal e)"
  using operator_uint64_t_reinterprets [of "\<lparr> value' = V_int64 (- 1), type_code' = kInt \<rparr>" "- 1"]
    operator_uint64_t_reinterprets [of "\<lparr> value' = V_int64 (- 1), type_code' = kFloat \<rparr>" "- 1"]
  by simp


lemma operator_int_fails_iff:
  "operator_int \<lparr> value' = V_int64 v, type_code' = kInt \<rparr> = Inl (IntTooLarge v) \<longleftrightarrow> INT_MAX < sint v"
  by (simp add: operator_int_def check_same)

lemma operator_int_succeeds_iff:
  "(\<exists>w. operator_int \<lparr> value' = V_int64 v, type_code' = kInt \<rparr> = Inr w) \<longleftrightarrow> sint v \<le> INT_MAX"
  by (simp add: operator_int_def check_same)

lemma sint_ucast_in_range:
  assumes "INT_MIN \<le> sint (v :: 64 word)" and "sint v \<le> INT_MAX"
  shows "sint (ucast v :: 32 word) = sint v"
proof -
  have "sint (ucast v :: 32 word) = signed_take_bit 31 (take_bit 32 (uint v))"
    by (simp add: sint_uint unsigned_ucast_eq)
  also have "\<dots> = signed_take_bit 31 (uint v)"
    by (simp add: signed_take_bit_take_bit)
  also have "\<dots> = signed_take_bit 31 (take_bit 64 (sint v))"
    using uint_sint [of v] by simp
  also have "\<dots> = signed_take_bit 31 (sint v)"
    by (simp add: signed_take_bit_take_bit)
  also have "\<dots> = sint v"
    using assms by (simp add: signed_take_bit_int_eq_self_iff INT_MIN_def INT_MAX_def)
  finally show ?thesis .
qed

lemma operator_int_in_range:
  assumes "INT_MIN \<le> sint v" and "sint v \<le> INT_MAX"
  shows "\<exists>w. operator_int \<lparr> value' = V_int64 v, type_code' = kInt \<rparr> = Inr w \<and> sint w = sint v"
  using assms by (simp add: operator_int_def check_same sint_ucast_in_range)

lemma operator_int_300:
  "operator_int \<lparr> value' = V_int64 300, type_code' = kInt \<rparr> = Inr 300"
  by (simp add: operator_int_def check_same INT_MAX_def)

text \<open>
  C3. The claim: on a value of code \<open>kInt\<close> holding \<open>v\<close>, the conversion to the
  32-bit \<open>int\<close> fails exactly when \<open>v\<close> lies outside \<open>[INT_MIN, INT_MAX]\<close>, and
  otherwise returns \<open>v\<close>. \<open>operator int\<close> checks the upper bound only
  (\<open>operator_int_fails_iff\<close>), and within the range it does return \<open>v\<close>
  (\<open>operator_int_in_range\<close>, \<open>operator_int_300\<close>). Below \<open>INT_MIN\<close> it does not fail:
  at \<open>v = INT_MIN - 1\<close> the check passes and the cast yields \<open>INT_MAX\<close>.
\<close>

theorem operator_int_below_INT_MIN:
  "sint (- 2147483649 :: 64 word) < INT_MIN \<and>
   operator_int \<lparr> value' = V_int64 (- 2147483649), type_code' = kInt \<rparr> = Inr 2147483647 \<and>
   sint (2147483647 :: 32 word) = 2147483647"
  by (simp add: operator_int_def check_same INT_MAX_def INT_MIN_def)

subsection \<open>The argument list\<close>

text \<open>
  C7. For an argument list of count \<open>n\<close>, indexing with \<open>i \<ge> n\<close> fails fatally with
  an error that carries the count and the requested index; when the two arrays have
  \<open>n\<close> entries, indexing with \<open>0 \<le> i < n\<close> returns the view made of \<open>values[i]\<close> and
  \<open>type_codes[i]\<close>.
\<close>

theorem TVMArgs_index_bounds:
  "(num_args a \<le> i \<longrightarrow>
      TVMArgs_index a i = Inl (NotEnoughArguments (num_args a) i) \<and>
      is_fatal (NotEnoughArguments (num_args a) i)) \<and>
   (length (values a) = nat (num_args a) \<and> length (type_codes a) = nat (num_args a) \<and>
    0 \<le> i \<and> i < num_args a \<longrightarrow>
      TVMArgs_index a i = Inr \<lparr> value' = values a ! nat i, type_code' = type_codes a ! nat i \<rparr>)"
  by (auto simp: TVMArgs_index_def TVMArgValue_def)

theorem TVMArgs_index_bounds_witness:
  "TVMArgs_index \<lparr> values = [V_int64 7, V_float64 9], type_codes = [kInt, kFloat], num_args = 2 \<rparr> 2
     = Inl (NotEnoughArguments 2 2) \<and>
   TVMArgs_index \<lparr> values = [V_int64 7, V_float64 9], type_codes = [kInt, kFloat], num_args = 2 \<rparr> 1
     = Inr \<lparr> value' = V_float64 9, type_code' = kFloat \<rparr>"
  using TVMArgs_index_bounds [of "\<lparr> values = [V_int64 7, V_float64 9], type_codes = [kInt, kFloat], num_args = 2 \<rparr>" 2]
    TVMArgs_index_bounds [of "\<lparr> values = [V_int64 7, V_float64 9], type_codes = [kInt, kFloat], num_args = 2 \<rparr>" 1]
  by simp

text \<open>
  C9. Only the upper bound is checked: for a list of count \<open>num_args \<ge> 0\<close> and every
  negative index \<open>i\<close>, \<open>i < num_args\<close> holds, the result is never the failure of the
  bounds check, and \<open>operator[]\<close> goes on to read \<open>values[i]\<close> and \<open>type_codes[i]\<close>
  outside the arrays. That read is not a fatal check of the program; the model
  records it as the outcome \<open>OutOfBoundsRead i\<close>.
\<close>

theorem TVMArgs_index_negative:
  "i < 0 \<and> 0 \<le> num_args a \<longrightarrow>
     i < num_args a \<and>
     (\<forall>n j. TVMArgs_index a i \<noteq> Inl (NotEnoughArguments n j)) \<and>
     TVMArgs_index a i = Inl (Undefined (OutOfBoundsRead i)) \<and>
     \<not> is_fatal (Undefined (OutOfBoundsRead i))"
  by (auto simp: TVMArgs_index_def)

theorem TVMArgs_index_negative_witness:
  "TVMArgs_index \<lparr> values = [V_int64 7, V_float64 9], type_codes = [kInt, kFloat], num_args = 2 \<rparr> (- 1)
     = Inl (Undefined (OutOfBoundsRead (- 1)))"
  using TVMArgs_index_negative [of "- 1" "\<lparr> values = [V_int64 7, V_float64 9], type_codes = [kInt, kFloat], num_args = 2 \<rparr>"]
  by simp

subsection \<open>Transfer to the C host\<close>

text \<open>
  C6. \<open>MoveToCHost\<close> fails fatally when the code of the slot is \<open>kStr\<close>. For every
  other code it writes the union and the code to the two outputs and sets the code of
  the slot to \<open>kNull\<close>; after that \<open>Clear\<close> and the destructor leave the memory as it
  is, whatever it holds, and a second \<open>MoveToCHost\<close> transfers the code \<open>kNull\<close>.
\<close>

theorem MoveToCHost_transfers:
  "(type_code' r = kStr \<longrightarrow> MoveToCHost r = Inl CannotMoveStr \<and> is_fatal CannotMoveStr) \<and>
   (type_code' r \<noteq> kStr \<longrightarrow>
      MoveToCHost r = Inr (r\<lparr>type_code' := kNull\<rparr>, value' r, type_code' r) \<and>
      Clear (r\<lparr>type_code' := kNull\<rparr>) m = Inr (r\<lparr>type_code' := kNull\<rparr>, m) \<and>
      TVMRetValue_destroy (r\<lparr>type_code' := kNull\<rparr>) m = Inr m \<and>
      MoveToCHost (r\<lparr>type_code' := kNull\<rparr>) = Inr (r\<lparr>type_code' := kNull\<rparr>, value' r, kNull))"
  by (simp add: MoveToCHost_def Clear_def TVMRetValue_destroy_def)

theorem MoveToCHost_transfers_witness:
  "MoveToCHost \<lparr> value' = V_handle 1, type_code' = kStr \<rparr> = Inl CannotMoveStr \<and>
   MoveToCHost \<lparr> value' = V_handle 1, type_code' = kFuncHandle \<rparr>
     = Inr (\<lparr> value' = V_handle 1, type_code' = kNull \<rparr>, V_handle 1, kFuncHandle) \<and>
   TVMRetValue_destroy \<lparr> value' = V_handle 1, type_code' = kNull \<rparr> [(1, PackedFuncObj (PackedFunc None))]
     = Inr [(1, PackedFuncObj (PackedFunc None))] \<and>
   MoveToCHost \<lparr> value' = V_handle 1, type_code' = kNull \<rparr>
     = Inr (\<lparr> value' = V_handle 1, type_code' = kNull \<rparr>, V_handle 1, kNull)"
  using MoveToCHost_transfers [of "\<lparr> value' = V_handle 1, type_code' = kStr \<rparr>" "[]"]
    MoveToCHost_transfers [of "\<lparr> value' = V_handle 1, type_code' = kFuncHandle \<rparr>"
      "[(1, PackedFuncObj (PackedFunc None))]"]
  by simp

subsection \<open>Memory and ownership\<close>

lemma fold_max_ge_init: "a \<le> fold max xs (a :: nat)"
proof (induction xs arbitrary: a)
  case Nil
  show ?case by simp
next
  case (Cons x xs)
  have "a \<le> max x a" by simp
  also have "\<dots> \<le> fold max xs (max x a)" by (rule Cons.IH)
  finally show ?case by simp
qed

lemma fold_max_ge_member: "x \<in> set xs \<Longrightarrow> x \<le> fold max xs (a :: nat)"
proof (induction xs arbitrary: a)
  case Nil
  then show ?case by simp
next
  case (Cons y ys)
  show ?case
  proof (cases "x = y")
    case True
    have "x \<le> max y a" using True by simp
    also have "\<dots> \<le> fold max ys (max y a)" by (rule fold_max_ge_init)
    finally show ?thesis by simp
  next
    case False
    then have "x \<in> set ys" using Cons.prems by simp
    then show ?thesis using Cons.IH by simp
  qed
qed

lemma new_addr_not_live: "new_addr m \<notin> live m"
proof
  assume "new_addr m \<in> live m"
  then have "new_addr m \<in> set (map fst m)" by (simp add: live_def)
  then have "new_addr m \<le> fold max (map fst m) 0" by (rule fold_max_ge_member)
  then show False by (simp add: new_addr_def)
qed

lemma new_addr_not_null: "new_addr m \<noteq> nullptr"
  by (simp add: new_addr_def nullptr_def)

lemma map_of_new_addr: "map_of m (new_addr m) = None"
  using new_addr_not_live [of m] by (simp add: live_def map_of_eq_None_iff)

subsection \<open>\<open>Clear\<close> and \<open>SwitchToClass\<close>\<close>

lemma owns_box_POD: "box_class (type_code' r) = None \<Longrightarrow> Clear_switch r m = Inr m"
  by (cases "type_code' r") (simp_all add: Clear_switch_def box_class_def)

lemma owns_box_handle:
  assumes "owns_box r m" and "box_class (type_code' r) = Some k"
  obtains p obj where "value' r = V_handle p" and "p \<noteq> nullptr"
    and "map_of m p = Some obj" and "class_of obj = k"
  using assms by (auto simp: owns_box_def split: TVMValue.splits option.splits)

lemma Clear_switch_box:
  assumes "box_class (type_code' r) = Some k" and "value' r = V_handle p" and "p \<noteq> nullptr"
    and "map_of m p = Some obj" and "class_of obj = k"
  shows "Clear_switch r m = Inr (AList.delete p m)"
  using assms
  by (cases "type_code' r") (simp_all add: Clear_switch_def box_class_def delete_ptr_def ptr_def delete_object_def)

lemma Clear_Null: "type_code' r = kNull \<Longrightarrow> Clear r m = Inr (r, m)"
  by (simp add: Clear_def)

lemma Clear_owned:
  assumes "owns_box r m"
  shows "\<exists>m0. Clear r m = Inr (r\<lparr>type_code' := kNull\<rparr>, m0) \<and>
           (box_class (type_code' r) = None \<longrightarrow> m0 = m) \<and>
           (\<forall>p. box_class (type_code' r) \<noteq> None \<and> value' r = V_handle p \<longrightarrow>
                 map_of m0 = (map_of m)(p := None))"
proof (cases "box_class (type_code' r)")
  case None
  then have "Clear_switch r m = Inr m" by (rule owns_box_POD)
  then have "Clear r m = Inr (r\<lparr>type_code' := kNull\<rparr>, m)"
    by (cases "type_code' r = kNull") (simp_all add: Clear_def)
  then show ?thesis using None by simp
next
  case (Some k)
  from assms Some obtain p obj where h: "value' r = V_handle p" "p \<noteq> nullptr"
    "map_of m p = Some obj" "class_of obj = k"
    by (rule owns_box_handle)
  have "Clear_switch r m = Inr (AList.delete p m)"
    using Some h by (rule Clear_switch_box)
  moreover have "type_code' r \<noteq> kNull" using Some by (auto simp: box_class_def)
  ultimately have "Clear r m = Inr (r\<lparr>type_code' := kNull\<rparr>, AList.delete p m)"
    by (simp add: Clear_def)
  then show ?thesis using h(1) Some by (simp add: delete_conv')
qed

lemma SwitchToClass_in_place:
  assumes "owns_box r m" and "box_class c = Some (class_of v)" and "type_code' r = c"
  shows "\<exists>p m'. value' r = V_handle p \<and> SwitchToClass c v r m = Inr (r, m') \<and>
           map_of m' = (map_of m)(p \<mapsto> v)"
proof -
  from assms have "box_class (type_code' r) = Some (class_of v)" by simp
  with assms(1) obtain p obj where h: "value' r = V_handle p" "p \<noteq> nullptr"
    "map_of m p = Some obj" "class_of obj = class_of v"
    by (blast elim: owns_box_handle)
  have "SwitchToClass c v r m = Inr (r, AList.update p v m)"
    using assms(3) h by (simp add: SwitchToClass_def ptr_def store_object_def)
  then show ?thesis using h(1) by (simp add: update_conv')
qed

lemma SwitchToClass_realloc:
  assumes "owns_box r m" and "type_code' r \<noteq> c"
  shows "\<exists>m0 m'. Clear r m = Inr (r\<lparr>type_code' := kNull\<rparr>, m0) \<and>
           (box_class (type_code' r) = None \<longrightarrow> m0 = m) \<and>
           (\<forall>p. box_class (type_code' r) \<noteq> None \<and> value' r = V_handle p \<longrightarrow>
                 map_of m0 = (map_of m)(p := None)) \<and>
           new_addr m0 \<notin> live m0 \<and> new_addr m0 \<noteq> nullptr \<and>
           SwitchToClass c v r m = Inr (\<lparr> value' = V_handle (new_addr m0), type_code' = c \<rparr>, m') \<and>
           map_of m' = (map_of m0)(new_addr m0 \<mapsto> v)"
proof -
  from assms(1) obtain m0 where c0: "Clear r m = Inr (r\<lparr>type_code' := kNull\<rparr>, m0)"
    and pod: "box_class (type_code' r) = None \<longrightarrow> m0 = m"
    and box: "\<forall>p. box_class (type_code' r) \<noteq> None \<and> value' r = V_handle p \<longrightarrow>
                 map_of m0 = (map_of m)(p := None)"
    using Clear_owned by blast
  have sw: "SwitchToClass c v r m =
      Inr (\<lparr> value' = V_handle (new_addr m0), type_code' = c \<rparr>, (new_addr m0, v) # m0)"
    using assms(2) c0 by (simp add: SwitchToClass_def new_object_def)
  have mp: "map_of ((new_addr m0, v) # m0) = (map_of m0)(new_addr m0 \<mapsto> v)"
    by (simp add: fun_eq_iff)
  show ?thesis
  proof (intro exI conjI)
    show "Clear r m = Inr (r\<lparr>type_code' := kNull\<rparr>, m0)" by (rule c0)
    show "box_class (type_code' r) = None \<longrightarrow> m0 = m" by (rule pod)
    show "\<forall>p. box_class (type_code' r) \<noteq> None \<and> value' r = V_handle p \<longrightarrow>
                 map_of m0 = (map_of m)(p := None)" by (rule box)
    show "new_addr m0 \<notin> live m0" by (rule new_addr_not_live)
    show "new_addr m0 \<noteq> nullptr" by (rule new_addr_not_null)
    show "SwitchToClass c v r m =
      Inr (\<lparr> value' = V_handle (new_addr m0), type_code' = c \<rparr>, (new_addr m0, v) # m0)"
      by (rule sw)
    show "map_of ((new_addr m0, v) # m0) = (map_of m0)(new_addr m0 \<mapsto> v)" by (rule mp)
  qed
qed

text \<open>
  C8. Let the slot own its box, and let a complex value \<open>v\<close> be assigned under its
  own code \<open>c\<close> (a string under \<open>kStr\<close>, a \<open>PackedFunc\<close> under \<open>kFuncHandle\<close>, a
  \<open>Module\<close> under \<open>kModuleHandle\<close>). When the code of the slot is already \<open>c\<close>, the
  slot, and so its handle, is unchanged and the memory changes at that handle only,
  which now holds \<open>v\<close>. When the codes differ, \<open>Clear\<close> runs first (no change of
  memory for a POD code, the owned box removed for a complex one), then a box at an
  address that is not live and not null receives \<open>v\<close>, and the slot holds that
  address under the code \<open>c\<close>.
\<close>

theorem SwitchToClass_reuses_or_reallocates:
  "owns_box r m \<and> box_class c = Some (class_of v) \<longrightarrow>
     (type_code' r = c \<longrightarrow>
        (\<exists>p m'. value' r = V_handle p \<and> SwitchToClass c v r m = Inr (r, m') \<and>
                map_of m' = (map_of m)(p \<mapsto> v))) \<and>
     (type_code' r \<noteq> c \<longrightarrow>
        (\<exists>m0 m'. Clear r m = Inr (r\<lparr>type_code' := kNull\<rparr>, m0) \<and>
           (box_class (type_code' r) = None \<longrightarrow> m0 = m) \<and>
           (\<forall>p. box_class (type_code' r) \<noteq> None \<and> value' r = V_handle p \<longrightarrow>
                 map_of m0 = (map_of m)(p := None)) \<and>
           new_addr m0 \<notin> live m0 \<and> new_addr m0 \<noteq> nullptr \<and>
           SwitchToClass c v r m = Inr (\<lparr> value' = V_handle (new_addr m0), type_code' = c \<rparr>, m') \<and>
           map_of m' = (map_of m0)(new_addr m0 \<mapsto> v)))"
  using SwitchToClass_in_place [of r m c v] SwitchToClass_realloc [of r m c v]
  by (intro impI conjI) (erule conjE, assumption)+

theorem SwitchToClass_reuses_or_reallocates_witness:
  "operator_assign_string ''new'' \<lparr> value' = V_handle 1, type_code' = kStr \<rparr> [(1, StringObj ''old'')]
     = Inr (\<lparr> value' = V_handle 1, type_code' = kStr \<rparr>, [(1, StringObj ''new'')]) \<and>
   operator_assign_Module (Module 5) \<lparr> value' = V_handle 1, type_code' = kStr \<rparr> [(1, StringObj ''old'')]
     = Inr (\<lparr> value' = V_handle 1, type_code' = kModuleHandle \<rparr>, [(1, ModuleObj (Module 5))]) \<and>
   operator_assign_PackedFunc (PackedFunc (Some 3)) \<lparr> value' = V_int64 0, type_code' = kInt \<rparr> [(1, StringObj ''old'')]
     = Inr (\<lparr> value' = V_handle 2, type_code' = kFuncHandle \<rparr>,
            [(2, PackedFuncObj (PackedFunc (Some 3))), (1, StringObj ''old'')])"
  using SwitchToClass_reuses_or_reallocates
      [of "\<lparr> value' = V_handle 1, type_code' = kStr \<rparr>" "[(1, StringObj ''old'')]" kStr "StringObj ''new''"]
    SwitchToClass_reuses_or_reallocates
      [of "\<lparr> value' = V_handle 1, type_code' = kStr \<rparr>" "[(1, StringObj ''old'')]" kModuleHandle "ModuleObj (Module 5)"]
    SwitchToClass_reuses_or_reallocates
      [of "\<lparr> value' = V_int64 0, type_code' = kInt \<rparr>" "[(1, StringObj ''old'')]" kFuncHandle "PackedFuncObj (PackedFunc (Some 3))"]
  by (simp add: operator_assign_string_def operator_assign_Module_def operator_assign_PackedFunc_def
      owns_box_def box_class_def nullptr_def SwitchToClass_def ptr_def store_object_def Clear_def
      Clear_switch_def delete_ptr_def delete_object_def new_object_def new_addr_def)

subsection \<open>Moving a return slot\<close>

lemma move_ctor_source_unchanged:
  "TVMRetValue_move_ctor other = (other, other)"
  by (simp add: TVMRetValue_move_ctor_def)

lemma operator_assign_move_transfers:
  assumes "owns_box this m"
  shows "\<exists>m'. operator_assign_move this other m =
           Inr (\<lparr> value' = value' other, type_code' = type_code' other \<rparr>,
                other\<lparr>type_code' := kNull\<rparr>, m') \<and>
           TVMRetValue_destroy (other\<lparr>type_code' := kNull\<rparr>) m' = Inr m'"
proof -
  from assms obtain m0 where "Clear this m = Inr (this\<lparr>type_code' := kNull\<rparr>, m0)"
    using Clear_owned by blast
  then show ?thesis
    by (simp add: operator_assign_move_def TVMRetValue_destroy_def Clear_def)
qed

text \<open>
  C1. The claim: after a move, by construction or by assignment, the source has the
  code \<open>kNull\<close>, so that no box is released twice. Move assignment does reset the
  source (\<open>operator_assign_move_transfers\<close>). The move constructor copies the union
  and the code and leaves the source as it was (\<open>move_ctor_source_unchanged\<close>): a
  default slot assigned the string \<open>"x"\<close> owns the box at address 1; after the move
  construction both slots hold that handle under \<open>kStr\<close>; destroying the moved-from
  slot releases the box, and destroying the other one deletes the same address again.
\<close>

theorem move_ctor_double_release:
  "operator_assign_string ''x'' TVMRetValue_default []
     = Inr (\<lparr> value' = V_handle 1, type_code' = kStr \<rparr>, [(1, StringObj ''x'')]) \<and>
   TVMRetValue_move_ctor \<lparr> value' = V_handle 1, type_code' = kStr \<rparr>
     = (\<lparr> value' = V_handle 1, type_code' = kStr \<rparr>, \<lparr> value' = V_handle 1, type_code' = kStr \<rparr>) \<and>
   TVMRetValue_destroy \<lparr> value' = V_handle 1, type_code' = kStr \<rparr> [(1, StringObj ''x'')] = Inr [] \<and>
   TVMRetValue_destroy \<lparr> value' = V_handle 1, type_code' = kStr \<rparr> []
     = Inl (Undefined (InvalidPointer 1))"
  by (simp add: operator_assign_string_def TVMRetValue_default_def SwitchToClass_def Clear_def
      new_object_def new_addr_def TVMRetValue_move_ctor_def TVMRetValue_destroy_def
      Clear_switch_def delete_ptr_def ptr_def delete_object_def nullptr_def)

subsection \<open>Copying into a return slot\<close>

lemma Assign_ModuleHandle_fails:
  "type_code' other = kModuleHandle \<Longrightarrow>
     Assign to_string other this m = Inl (TypeCodeMismatch kFuncHandle kModuleHandle)"
  by (simp add: Assign_def operator_PackedFunc_def TVM_CHECK_TYPE_CODE_def)

lemma Assign_FuncHandle_copies:
  assumes "type_code' other = kFuncHandle" and "value' other = V_handle p"
    and "map_of m p = Some (PackedFuncObj f)"
    and "owns_box this m" and "type_code' this \<noteq> kFuncHandle"
  shows "\<exists>m0 m'. Clear this m = Inr (this\<lparr>type_code' := kNull\<rparr>, m0) \<and>
           new_addr m0 \<notin> live m0 \<and>
           Assign to_string other this m
             = Inr (\<lparr> value' = V_handle (new_addr m0), type_code' = kFuncHandle \<rparr>, m') \<and>
           map_of m' = (map_of m0)(new_addr m0 \<mapsto> PackedFuncObj f)"
proof -
  have conv: "operator_PackedFunc other m = Inr f"
    using assms(1-3) by (simp add: operator_PackedFunc_def check_same ptr_def load_PackedFunc_def)
  have "box_class kFuncHandle = Some (class_of (PackedFuncObj f))"
    by (simp add: box_class_def)
  with assms(4,5) obtain m0 m' where
    "Clear this m = Inr (this\<lparr>type_code' := kNull\<rparr>, m0)" "new_addr m0 \<notin> live m0"
    "SwitchToClass kFuncHandle (PackedFuncObj f) this m
       = Inr (\<lparr> value' = V_handle (new_addr m0), type_code' = kFuncHandle \<rparr>, m')"
    "map_of m' = (map_of m0)(new_addr m0 \<mapsto> PackedFuncObj f)"
    using SwitchToClass_realloc [of this m kFuncHandle "PackedFuncObj f"] by blast
  then show ?thesis using assms(1) conv by (auto simp: Assign_def)
qed

text \<open>
  C2. The claim: copying a source of code \<open>kModuleHandle\<close> into a return slot
  succeeds with a new box holding a copy of the \<open>Module\<close>. In \<open>Assign\<close> that case
  converts the source with \<open>operator PackedFunc\<close>, whose check wants \<open>kFuncHandle\<close>:
  every such copy fails (\<open>Assign_ModuleHandle_fails\<close>), here for a view and for a
  slot over a live \<open>Module\<close>, which \<open>operator Module\<close> reads without error. The part
  of the claim about \<open>kFuncHandle\<close> holds (\<open>Assign_FuncHandle_copies\<close>).
\<close>

theorem Assign_ModuleHandle_type_mismatch:
  "operator_assign_TVMArgValue \<lparr> value' = V_handle 1, type_code' = kModuleHandle \<rparr>
     TVMRetValue_default [(1, ModuleObj (Module 7))]
     = Inl (TypeCodeMismatch kFuncHandle kModuleHandle) \<and>
   operator_assign_TVMRetValue \<lparr> value' = V_handle 1, type_code' = kModuleHandle \<rparr>
     TVMRetValue_default [(1, ModuleObj (Module 7))]
     = Inl (TypeCodeMismatch kFuncHandle kModuleHandle) \<and>
   TVMRetValue_copy_ctor \<lparr> value' = V_handle 1, type_code' = kModuleHandle \<rparr>
     [(1, ModuleObj (Module 7))]
     = Inl (TypeCodeMismatch kFuncHandle kModuleHandle) \<and>
   is_fatal (TypeCodeMismatch kFuncHandle kModuleHandle) \<and>
   operator_Module \<lparr> value' = V_handle 1, type_code' = kModuleHandle \<rparr> [(1, ModuleObj (Module 7))]
     = Inr (Module 7)"
  by (simp add: operator_assign_TVMArgValue_def operator_assign_TVMRetValue_def
      TVMRetValue_copy_ctor_def Assign_def operator_PackedFunc_def TVM_CHECK_TYPE_CODE_def
      operator_Module_def ptr_def load_Module_def)

subsection \<open>Parsing type descriptors\<close>

lemmas parse_defs = String2TVMType_def c_str_def scan_type_def sscanf_u_x_u_def
  scan_unsigned_def scan_sign_def isspace_def digit_val_def digit_chars_def

lemma scan_type_code: "\<exists>b l. scan_type c b0 rest = \<lparr> code = c, bits = b, lanes = l \<rparr>"
  by (simp add: scan_type_def split: prod.splits)

lemma ucast_8_32_8: "ucast (ucast (b :: 8 word) :: 32 word) = b"
  by (rule ucast_up_ucast_id) (simp add: is_up)

lemma ucast_16_32_16: "ucast (ucast (l :: 16 word) :: 32 word) = l"
  by (rule ucast_up_ucast_id) (simp add: is_up)

lemma String2TVMType_uint:
  assumes "take 4 s = ''uint''"
  shows "String2TVMType s = Inr (scan_type kUInt 32 (drop 4 (c_str s)))"
proof -
  have "take 3 s = take 3 (take 4 s)" by (simp add: min_def)
  then have "take 3 s = ''uin''" using assms by simp
  then show ?thesis using assms by (simp add: String2TVMType_def)
qed

lemma String2TVMType_int:
  assumes "take 3 s = ''int''"
  shows "String2TVMType s = Inr (scan_type kInt 32 (drop 3 (c_str s)))"
  using assms by (simp add: String2TVMType_def)

lemma String2TVMType_float:
  assumes "take 5 s = ''float''"
  shows "String2TVMType s = Inr (scan_type kFloat 32 (drop 5 (c_str s)))"
proof -
  have "take 3 s = take 3 (take 5 s)" "take 4 s = take 4 (take 5 s)" by (simp_all add: min_def)
  then have "take 3 s = ''flo''" "take 4 s = ''floa''" using assms by simp_all
  then show ?thesis using assms by (simp add: String2TVMType_def)
qed

lemma String2TVMType_handle:
  assumes "take 6 s = ''handle''"
  shows "String2TVMType s = Inr (scan_type kHandle 64 (drop 6 (c_str s)))"
proof -
  have "take 3 s = take 3 (take 6 s)" "take 4 s = take 4 (take 6 s)" "take 5 s = take 5 (take 6 s)"
    by (simp_all add: min_def)
  then have "take 3 s = ''han''" "take 4 s = ''hand''" "take 5 s = ''handl''"
    using assms by simp_all
  then show ?thesis using assms by (simp add: String2TVMType_def)
qed

lemma scan_type_no_number:
  "scan_unsigned rest = None \<Longrightarrow> scan_type c b0 rest = \<lparr> code = c, bits = b0, lanes = 1 \<rparr>"
  by (simp add: scan_type_def sscanf_u_x_u_def ucast_8_32_8)

text \<open>
  C5. \<open>String2TVMType\<close> classifies every string by its prefix: \<open>uint\<close> gives the code
  \<open>kUInt\<close>, \<open>int\<close> gives \<open>kInt\<close>, \<open>float\<close> gives \<open>kFloat\<close>, \<open>handle\<close> gives
  \<open>kHandle\<close>, and a string with none of the four prefixes is the fatal error
  \<open>unknown type\<close>. With no numeric suffix the defaults stay: 32 bits and 1 lane, and
  64 bits for \<open>handle\<close>.
\<close>

theorem String2TVMType_prefixes:
  "(take 4 s = ''uint'' \<longrightarrow> (\<exists>b l. String2TVMType s = Inr \<lparr> code = kUInt, bits = b, lanes = l \<rparr>)) \<and>
   (take 3 s = ''int'' \<longrightarrow> (\<exists>b l. String2TVMType s = Inr \<lparr> code = kInt, bits = b, lanes = l \<rparr>)) \<and>
   (take 5 s = ''float'' \<longrightarrow> (\<exists>b l. String2TVMType s = Inr \<lparr> code = kFloat, bits = b, lanes = l \<rparr>)) \<and>
   (take 6 s = ''handle'' \<longrightarrow> (\<exists>b l. String2TVMType s = Inr \<lparr> code = kHandle, bits = b, lanes = l \<rparr>)) \<and>
   (take 3 s \<noteq> ''int'' \<and> take 4 s \<noteq> ''uint'' \<and> take 5 s \<noteq> ''float'' \<and> take 6 s \<noteq> ''handle'' \<longrightarrow>
      String2TVMType s = Inl (UnknownType s) \<and> is_fatal (UnknownType s)) \<and>
   String2TVMType ''int'' = Inr \<lparr> code = kInt, bits = 32, lanes = 1 \<rparr> \<and>
   String2TVMType ''uint'' = Inr \<lparr> code = kUInt, bits = 32, lanes = 1 \<rparr> \<and>
   String2TVMType ''float'' = Inr \<lparr> code = kFloat, bits = 32, lanes = 1 \<rparr> \<and>
   String2TVMType ''handle'' = Inr \<lparr> code = kHandle, bits = 64, lanes = 1 \<rparr>"
proof (intro conjI impI)
  show "\<exists>b l. String2TVMType s = Inr \<lparr> code = kUInt, bits = b, lanes = l \<rparr>" if "take 4 s = ''uint''"
    using that scan_type_code [of kUInt] by (simp add: String2TVMType_uint)
  show "\<exists>b l. String2TVMType s = Inr \<lparr> code = kInt, bits = b, lanes = l \<rparr>" if "take 3 s = ''int''"
    using that scan_type_code [of kInt] by (simp add: String2TVMType_int)
  show "\<exists>b l. String2TVMType s = Inr \<lparr> code = kFloat, bits = b, lanes = l \<rparr>" if "take 5 s = ''float''"
    using that scan_type_code [of kFloat] by (simp add: String2TVMType_float)
  show "\<exists>b l. String2TVMType s = Inr \<lparr> code = kHandle, bits = b, lanes = l \<rparr>" if "take 6 s = ''handle''"
    using that scan_type_code [of kHandle] by (simp add: String2TVMType_handle)
  show "String2TVMType s = Inl (UnknownType s)"
    if "take 3 s \<noteq> ''int'' \<and> take 4 s \<noteq> ''uint'' \<and> take 5 s \<noteq> ''float'' \<and> take 6 s \<noteq> ''handle''"
    using that by (simp add: String2TVMType_def)
  show "is_fatal (UnknownType s)" by simp
  show "String2TVMType ''int'' = Inr \<lparr> code = kInt, bits = 32, lanes = 1 \<rparr>"
    by (simp add: parse_defs)
  show "String2TVMType ''uint'' = Inr \<lparr> code = kUInt, bits = 32, lanes = 1 \<rparr>"
    by (simp add: parse_defs)
  show "String2TVMType ''float'' = Inr \<lparr> code = kFloat, bits = 32, lanes = 1 \<rparr>"
    by (simp add: parse_defs)
  show "String2TVMType ''handle'' = Inr \<lparr> code = kHandle, bits = 64, lanes = 1 \<rparr>"
    by (simp add: parse_defs)
qed

theorem String2TVMType_prefixes_witness:
  "String2TVMType ''uint8'' = Inr \<lparr> code = kUInt, bits = 8, lanes = 1 \<rparr> \<and>
   String2TVMType ''int64x2'' = Inr \<lparr> code = kInt, bits = 64, lanes = 2 \<rparr> \<and>
   String2TVMType ''float16'' = Inr \<lparr> code = kFloat, bits = 16, lanes = 1 \<rparr> \<and>
   String2TVMType ''handlex'' = Inr \<lparr> code = kHandle, bits = 64, lanes = 1 \<rparr> \<and>
   String2TVMType ''bool'' = Inl (UnknownType ''bool'')"
  using String2TVMType_prefixes [of "''uint8''"] String2TVMType_prefixes [of "''int64x2''"]
    String2TVMType_prefixes [of "''float16''"] String2TVMType_prefixes [of "''handlex''"]
    String2TVMType_prefixes [of "''bool''"]
  by (simp add: parse_defs)

subsection \<open>Formatting and parsing back\<close>

lemma digit_val_digit_chars: "n < 10 \<Longrightarrow> digit_val (digit_chars ! n) = Some n"
proof -
  assume "n < 10"
  then have "n \<in> {0, 1, 2, 3, 4, 5, 6, 7, 8, 9}" by auto
  then show ?thesis
    by (elim insertE emptyE; simp add: digit_val_def digit_chars_def)
qed

lemma digit_val_plain:
  assumes "digit_val c = Some d"
  shows "\<not> isspace c" and "c \<noteq> CHR ''-''" and "c \<noteq> CHR ''+''" and "c \<noteq> CHR 0x00"
  using assms by (auto simp: digit_val_def digit_chars_def isspace_def split: if_splits)

lemma scan_digits_string_of_nat:
  "scan_digits acc (string_of_nat n @ rest)
     = scan_digits (acc * 10 ^ length (string_of_nat n) + of_nat n) rest"
proof (induction n arbitrary: acc rest rule: string_of_nat.induct)
  case (1 n)
  show ?case
  proof (cases "n < 10")
    case True
    then have "string_of_nat n = [digit_chars ! n]"
      by (subst string_of_nat.simps) simp
    then show ?thesis using True by (simp add: digit_val_digit_chars)
  next
    case False
    let ?q = "n div 10" and ?r = "n mod 10"
    have s: "string_of_nat n = string_of_nat ?q @ [digit_chars ! ?r]"
      using False by (subst string_of_nat.simps) simp
    have "scan_digits acc (string_of_nat n @ rest)
        = scan_digits acc (string_of_nat ?q @ (digit_chars ! ?r) # rest)"
      by (simp add: s)
    also have "\<dots> = scan_digits (acc * 10 ^ length (string_of_nat ?q) + of_nat ?q)
                        ((digit_chars ! ?r) # rest)"
      using False by (rule "1.IH")
    also have "\<dots> = scan_digits ((acc * 10 ^ length (string_of_nat ?q) + of_nat ?q) * 10 + of_nat ?r) rest"
      by (simp add: digit_val_digit_chars)
    also have "(acc * 10 ^ length (string_of_nat ?q) + of_nat ?q) * 10 + of_nat ?r
        = acc * 10 ^ length (string_of_nat n) + of_nat n"
    proof -
      have "(of_nat n :: 32 word) = of_nat (?q * 10 + ?r)" by simp
      also have "\<dots> = of_nat ?q * 10 + of_nat ?r"
        by (simp only: of_nat_add of_nat_mult of_nat_numeral)
      finally have e: "(of_nat n :: 32 word) = of_nat ?q * 10 + of_nat ?r" .
      have "length (string_of_nat n) = Suc (length (string_of_nat ?q))" by (simp add: s)
      then show ?thesis unfolding e by (simp add: algebra_simps)
    qed
    finally show ?thesis .
  qed
qed


lemma string_of_nat_digits: "c \<in> set (string_of_nat n) \<Longrightarrow> \<exists>d. digit_val c = Some d"
proof (induction n rule: string_of_nat.induct)
  case (1 n)
  show ?case
  proof (cases "n < 10")
    case True
    then have "string_of_nat n = [digit_chars ! n]"
      by (subst string_of_nat.simps) simp
    then show ?thesis using "1.prems" True by (simp add: digit_val_digit_chars)
  next
    case False
    then have "string_of_nat n = string_of_nat (n div 10) @ [digit_chars ! (n mod 10)]"
      by (subst string_of_nat.simps) simp
    then have "c \<in> set (string_of_nat (n div 10)) \<or> c = digit_chars ! (n mod 10)"
      using "1.prems" by auto
    then show ?thesis
    proof
      assume "c \<in> set (string_of_nat (n div 10))"
      with False show ?thesis by (rule "1.IH")
    next
      assume "c = digit_chars ! (n mod 10)"
      then show ?thesis by (simp add: digit_val_digit_chars)
    qed
  qed
qed

lemma string_of_nat_nonempty: "string_of_nat n \<noteq> []"
  by (subst string_of_nat.simps) simp

lemma string_of_nat_Cons:
  obtains c cs d where "string_of_nat n = c # cs" and "digit_val c = Some d"
proof -
  obtain c cs where e: "string_of_nat n = c # cs"
    using string_of_nat_nonempty [of n] by (cases "string_of_nat n") auto
  then have "c \<in> set (string_of_nat n)" by simp
  then obtain d where "digit_val c = Some d" using string_of_nat_digits by blast
  with e show ?thesis by (rule that)
qed

lemma scan_digits_stop:
  "rest = [] \<or> digit_val (hd rest) = None \<Longrightarrow> scan_digits acc rest = (acc, rest)"
  by (cases rest) auto

lemma scan_unsigned_string_of_nat:
  assumes "rest = [] \<or> digit_val (hd rest) = None"
  shows "scan_unsigned (string_of_nat n @ rest) = Some (of_nat n, rest)"
proof -
  obtain c cs d where e: "string_of_nat n = c # cs" and dv: "digit_val c = Some d"
    by (rule string_of_nat_Cons)
  have plain: "\<not> isspace c" "c \<noteq> CHR ''-''" "c \<noteq> CHR ''+''"
    using digit_val_plain [OF dv] by simp_all
  have "scan_digits 0 (string_of_nat n @ rest) = scan_digits (of_nat n) rest"
    by (simp add: scan_digits_string_of_nat)
  also have "\<dots> = (of_nat n, rest)" using assms by (rule scan_digits_stop)
  finally have sd: "scan_digits 0 (c # cs @ rest) = (of_nat n, rest)" by (simp add: e)
  have "scan_unsigned (c # cs @ rest) = Some (of_nat n, rest)"
    unfolding scan_unsigned_def using plain dv sd by (simp add: scan_sign_def del: scan_digits.simps)
  then show ?thesis by (simp add: e)
qed

lemma sscanf_bits_only: "sscanf_u_x_u (string_of_nat b) b0 l0 = (of_nat b, l0)"
  using scan_unsigned_string_of_nat [of "[]" b] by (simp add: sscanf_u_x_u_def)

lemma sscanf_bits_lanes:
  "sscanf_u_x_u (string_of_nat b @ CHR ''x'' # string_of_nat l) b0 l0 = (of_nat b, of_nat l)"
proof -
  have "digit_val (CHR ''x'') = None" by (simp add: digit_val_def digit_chars_def)
  then have "scan_unsigned (string_of_nat b @ CHR ''x'' # string_of_nat l)
      = Some (of_nat b, CHR ''x'' # string_of_nat l)"
    by (intro scan_unsigned_string_of_nat) simp
  moreover have "scan_unsigned (string_of_nat l) = Some (of_nat l, [])"
    using scan_unsigned_string_of_nat [of "[]" l] by simp
  ultimately show ?thesis by (simp add: sscanf_u_x_u_def)
qed

lemma string_of_nat_no_NUL: "CHR 0x00 \<notin> set (string_of_nat n)"
  using string_of_nat_digits digit_val_plain(4) by blast

lemma scan_type_suffix:
  "scan_type c b0 (string_of_nat (unat b) @ (if l \<noteq> 1 then CHR ''x'' # string_of_nat (unat l) else []))
     = \<lparr> code = c, bits = b, lanes = l \<rparr>"
proof (cases "l = 1")
  case True
  then show ?thesis
    by (simp add: scan_type_def sscanf_bits_only ucast_8_32_8 ucast_16_32_16)
next
  case False
  then show ?thesis
    by (simp add: scan_type_def sscanf_bits_lanes ucast_8_32_8 ucast_16_32_16)
qed

lemma Parse_Format_Int_Float:
  assumes "code d = kInt \<or> code d = kFloat"
  shows "Parse_Format d = Inr d"
proof -
  define S where "S = string_of_nat (unat (bits d)) @
            (if lanes d \<noteq> 1 then CHR ''x'' # string_of_nat (unat (lanes d)) else [])"
  have suffix: "takeWhile (\<lambda>c. c \<noteq> CHR 0x00) S = S"
    unfolding S_def
    using string_of_nat_no_NUL [of "unat (bits d)"] string_of_nat_no_NUL [of "unat (lanes d)"]
    by (auto simp: takeWhile_eq_all_conv)
  have st: "scan_type (code d) 32 S = d"
    unfolding S_def by (simp add: scan_type_suffix)
  from assms show ?thesis
  proof
    assume c: "code d = kInt"
    then have "TVMType2String d = Inr (''int'' @ S)"
      by (simp add: TVMType2String_def S_def)
    moreover have "String2TVMType (''int'' @ S) = Inr (scan_type kInt 32 S)"
      by (simp add: String2TVMType_def c_str_def suffix)
    ultimately show ?thesis using st c by (simp add: Parse_Format_def)
  next
    assume c: "code d = kFloat"
    then have "TVMType2String d = Inr (''float'' @ S)"
      by (simp add: TVMType2String_def S_def)
    moreover have "String2TVMType (''float'' @ S) = Inr (scan_type kFloat 32 S)"
      by (simp add: String2TVMType_def c_str_def suffix)
    ultimately show ?thesis using st c by (simp add: Parse_Format_def)
  qed
qed

lemma Parse_Format_Handle:
  "code d = kHandle \<Longrightarrow> Parse_Format d = Inr \<lparr> code = kHandle, bits = 64, lanes = 1 \<rparr>"
  by (simp add: Parse_Format_def TVMType2String_def String2TVMType_def c_str_def scan_type_def
      sscanf_u_x_u_def scan_unsigned_def scan_sign_def)

lemma Parse_Format_UInt:
  "code d = kUInt \<Longrightarrow> Parse_Format d = Inl (UnknownTypeCode kUInt)"
  by (simp add: Parse_Format_def TVMType2String_def)

text \<open>
  C4. The claim: \<open>Parse(Format(d)) = d\<close> for every descriptor with code in
  \<open>{Int, UInt, Float, Handle}\<close>, bits in \<open>{1, 8, 16, 32, 64}\<close> (64 for \<open>Handle\<close>) and lanes
  in \<open>{1, 4, 8}\<close>. It fails for \<open>Handle\<close> with 4 lanes: the text of a handle is
  \<open>handle\<close> alone, which parses to 1 lane.
\<close>

theorem Parse_Format_handle_lanes:
  "Parse_Format \<lparr> code = kHandle, bits = 64, lanes = 4 \<rparr>
     \<noteq> Inr \<lparr> code = kHandle, bits = 64, lanes = 4 \<rparr>"
  by (simp add: Parse_Format_Handle)

text \<open>
  C4, amended. \<open>Parse(Format(d)) = d\<close> for every descriptor with code \<open>Int\<close> or
  \<open>Float\<close>, bits in \<open>{1, 8, 16, 32, 64}\<close> and lanes in \<open>{1, 4, 8}\<close>, and for the \<open>Handle\<close>
  descriptor with 64 bits and 1 lane; a \<open>Handle\<close> descriptor with any bits and lanes
  comes back as \<open>Handle\<close> with 64 bits and 1 lane. The descriptor
  \<open>{Float, 32, 4}\<close> formats to \<open>float32x4\<close>, and that text parses to the same
  descriptor.
\<close>

theorem Parse_Format_roundtrip:
  "(((code d = kInt \<or> code d = kFloat) \<and> bits d \<in> {1, 8, 16, 32, 64} \<and> lanes d \<in> {1, 4, 8}) \<or>
    (code d = kHandle \<and> bits d = 64 \<and> lanes d = 1) \<longrightarrow> Parse_Format d = Inr d) \<and>
   (code d = kHandle \<longrightarrow> Parse_Format d = Inr \<lparr> code = kHandle, bits = 64, lanes = 1 \<rparr>) \<and>
   TVMType2String \<lparr> code = kFloat, bits = 32, lanes = 4 \<rparr> = Inr ''float32x4'' \<and>
   String2TVMType ''float32x4'' = Inr \<lparr> code = kFloat, bits = 32, lanes = 4 \<rparr>"
proof (intro conjI impI)
  assume "((code d = kInt \<or> code d = kFloat) \<and> bits d \<in> {1, 8, 16, 32, 64} \<and> lanes d \<in> {1, 4, 8}) \<or>
    (code d = kHandle \<and> bits d = 64 \<and> lanes d = 1)"
  then show "Parse_Format d = Inr d"
  proof
    assume "(code d = kInt \<or> code d = kFloat) \<and> bits d \<in> {1, 8, 16, 32, 64} \<and> lanes d \<in> {1, 4, 8}"
    then show ?thesis by (simp add: Parse_Format_Int_Float)
  next
    assume h: "code d = kHandle \<and> bits d = 64 \<and> lanes d = 1"
    then have "d = \<lparr> code = kHandle, bits = 64, lanes = 1 \<rparr>" by (cases d) simp
    with h show ?thesis by (simp add: Parse_Format_Handle)
  qed
next
  assume "code d = kHandle"
  then show "Parse_Format d = Inr \<lparr> code = kHandle, bits = 64, lanes = 1 \<rparr>"
    by (rule Parse_Format_Handle)
next
  show "TVMType2String \<lparr> code = kFloat, bits = 32, lanes = 4 \<rparr> = Inr ''float32x4''"
    by (simp add: TVMType2String_def digit_chars_def string_of_nat.simps)
  show "String2TVMType ''float32x4'' = Inr \<lparr> code = kFloat, bits = 32, lanes = 4 \<rparr>"
    by (simp add: parse_defs)
qed

theorem Parse_Format_roundtrip_witness:
  "Parse_Format \<lparr> code = kFloat, bits = 32, lanes = 4 \<rparr> = Inr \<lparr> code = kFloat, bits = 32, lanes = 4 \<rparr> \<and>
   Parse_Format \<lparr> code = kInt, bits = 1, lanes = 8 \<rparr> = Inr \<lparr> code = kInt, bits = 1, lanes = 8 \<rparr> \<and>
   Parse_Format \<lparr> code = kHandle, bits = 64, lanes = 1 \<rparr> = Inr \<lparr> code = kHandle, bits = 64, lanes = 1 \<rparr> \<and>
   Parse_Format \<lparr> code = kHandle, bits = 64, lanes = 8 \<rparr> = Inr \<lparr> code = kHandle, bits = 64, lanes = 1 \<rparr>"
  using Parse_Format_roundtrip [of "\<lparr> code = kFloat, bits = 32, lanes = 4 \<rparr>"]
    Parse_Format_roundtrip [of "\<lparr> code = kInt, bits = 1, lanes = 8 \<rparr>"]
    Parse_Format_roundtrip [of "\<lparr> code = kHandle, bits = 64, lanes = 1 \<rparr>"]
    Parse_Format_roundtrip [of "\<lparr> code = kHandle, bits = 64, lanes = 8 \<rparr>"]
  by simp

end
